theory Spec2Isabelle
  imports Complex_Main "HOL-Library.Sublist"
begin

section \<open>Exceptions\<close>

text \<open>
  Every raise of the pipeline is a value.  The two kinds of the package
  (\<^verbatim>\<open>house_analysis.exceptions\<close>) carry the message the code formats; a message that
  embeds \<^verbatim>\<open>str(e)\<close> keeps the exception it was built from.
\<close>

datatype py_exception =
    FileNotFoundError
  | IsADirectoryError
  | NotADirectoryError
  | KeyError
  | ValueError
  | IndexError
  | UnboundLocalError
  | UnpicklingError
  | JSONDecodeError
  | ParserError
  | DataProcessingError message
  | ModelOperationError message
and message =
    FileDoesNotExist string
  | ColumnsMissing "string set"
  | ErrorLoadingData py_exception
  | FailedToMakePrediction py_exception
  | ErrorSavingModel py_exception
  | ModelPathMustBeFile string
  | MetadataPathMustBeFile string
  | FailedToLoadModel py_exception

fun is_DataProcessingError :: "py_exception + 'a \<Rightarrow> bool" where
  "is_DataProcessingError (Inl (DataProcessingError m)) = True"
| "is_DataProcessingError r = False"

fun is_ModelOperationError :: "py_exception + 'a \<Rightarrow> bool" where
  "is_ModelOperationError (Inl (ModelOperationError m)) = True"
| "is_ModelOperationError r = False"

section \<open>Configuration\<close>

text \<open>The entries of \<^verbatim>\<open>config.CONFIG\<close> that the pipeline reads.\<close>

record config =
  test_size :: real
  random_state :: "int option"
  outlier_threshold :: real
  required_cols :: "string list"
  feature_cols :: "string list"
  target_col :: string

definition CONFIG :: config where
  "CONFIG =
     \<lparr>test_size = 2 / 10,
      random_state = Some 42,
      outlier_threshold = 3,
      required_cols = [''square_footage'', ''bedrooms'', ''price_thousands''],
      feature_cols = [''square_footage'', ''bedrooms''],
      target_col = ''price_thousands''\<rparr>"

section \<open>Tables\<close>

text \<open>
  A cell of a data frame is a number, a string, or missing.  Floating-point numbers are
  read as exact reals throughout, so the only non-finite value is the missing one.  A
  frame has its column names and its rows, each row with its index label.
\<close>

datatype cell = Num real | Str string | NaN

record dataframe =
  columns :: "string list"
  rows :: "(nat \<times> (string \<Rightarrow> cell)) list"

section \<open>Fitted objects and the file system\<close>

text \<open>
  A fitted \<^verbatim>\<open>LinearRegression\<close> is its \<^verbatim>\<open>coef_\<close> and \<^verbatim>\<open>intercept_\<close>; a fitted
  \<^verbatim>\<open>StandardScaler\<close> is its \<^verbatim>\<open>mean_\<close> and \<^verbatim>\<open>scale_\<close>.  A numeric matrix is the
  list of its rows.  A metric that the library reports as \<^verbatim>\<open>nan\<close> is \<open>None\<close>.
\<close>

record linear_regression =
  coef :: "real list"
  intercept :: real

record standard_scaler =
  mean :: "real list"
  scale :: "real list"

type_synonym ndarray = "real list list"

record ModelData =
  X_trained :: "cell list list"
  X_test :: "cell list list"
  y_trained :: "cell list"
  y_test :: "cell list"

record ModelResult =
  model :: linear_regression
  scaler :: standard_scaler
  train_predictions :: "real list"
  test_predictions :: "real list"
  train_r2 :: "real option"
  test_r2 :: "real option"
  train_rmse :: real
  test_rmse :: real

text \<open>The dictionary that \<^verbatim>\<open>save_model\<close> dumps as JSON, key by key.\<close>

record metadata =
  md_coefficients :: "real list"
  md_intercept :: real
  md_feature :: "string list"
  md_target :: string
  md_train_r2 :: "real option"
  md_test_r2 :: "real option"
  md_train_rmse :: real
  md_test_rmse :: real

text \<open>
  A file is known by what its bytes decode to: a CSV text by its table, a pickle by the
  pair of objects dumped, a JSON text by the dictionary dumped.  Reading a file with the
  decoder of another format fails.  Paths are compared as strings; the empty directory
  name stands for the working directory, which exists.
\<close>

datatype file_content =
    Table dataframe
  | Pickle linear_regression standard_scaler
  | Json metadata
  | Other

datatype node = Dir | File file_content

type_synonym filesystem = "string \<Rightarrow> node option"

definition isfile :: "filesystem \<Rightarrow> string \<Rightarrow> bool" where
  "isfile fs p = (case fs p of Some (File c) \<Rightarrow> True | _ \<Rightarrow> False)"







section \<open>Loading\<close>

text \<open>\<^verbatim>\<open>pd.read_csv\<close>: the table of a CSV file, a parse error on anything else.\<close>

definition read_csv :: "filesystem \<Rightarrow> string \<Rightarrow> py_exception + dataframe" where
  "read_csv fs p = (case fs p of Some (File (Table df)) \<Rightarrow> Inr df | _ \<Rightarrow> Inl ParserError)"

text \<open>
  \<^verbatim>\<open>load_data\<close>.  The check for missing columns raises inside the \<^verbatim>\<open>try\<close>, so the
  handler wraps that error once more.
\<close>

definition load_data :: "config \<Rightarrow> filesystem \<Rightarrow> string \<Rightarrow> py_exception + dataframe" where
  "load_data cfg fs filepath =
     (if \<not> isfile fs filepath then Inl (DataProcessingError (FileDoesNotExist filepath))
      else
        case read_csv fs filepath of
          Inl e \<Rightarrow> Inl (DataProcessingError (ErrorLoadingData e))
        | Inr df \<Rightarrow>
            let missing_cols = set (required_cols cfg) - set (columns df) in
            if missing_cols \<noteq> {} then
              Inl (DataProcessingError
                     (ErrorLoadingData (DataProcessingError (ColumnsMissing missing_cols))))
            else Inr df)"

section \<open>Preprocessing\<close>

text \<open>
  Data frames are mutable objects, so they live in a heap: a reference is a position in
  the list of allocated frames.  A call returns the heap it leaves behind together with
  the reference it returns or the exception it raises.
\<close>

type_synonym heap = "dataframe list"

definition alloc :: "heap \<Rightarrow> dataframe \<Rightarrow> heap \<times> nat" where
  "alloc h df = (h @ [df], length h)"

text \<open>
  \<^verbatim>\<open>pd.to_numeric(..., errors="coerce")\<close> on one cell.  The parser of the library is a
  parameter: it gives the number a string denotes, if any.
\<close>

definition to_numeric :: "(string \<Rightarrow> real option) \<Rightarrow> cell \<Rightarrow> cell" where
  "to_numeric parse c =
     (case c of
        Num x \<Rightarrow> Num x
      | Str s \<Rightarrow> (case parse s of Some x \<Rightarrow> Num x | None \<Rightarrow> NaN)
      | NaN \<Rightarrow> NaN)"

definition set_column :: "dataframe \<Rightarrow> string \<Rightarrow> (cell \<Rightarrow> cell) \<Rightarrow> dataframe" where
  "set_column df col f = df\<lparr>rows := map (\<lambda>(i, r). (i, r(col := f (r col)))) (rows df)\<rparr>"

text \<open>
  The first loop: \<^verbatim>\<open>processed_df[col] = pd.to_numeric(processed_df[col], ...)\<close> assigns
  into the object itself; reading a column the frame does not have raises.
\<close>

fun coerce_loop ::
  "(string \<Rightarrow> real option) \<Rightarrow> string list \<Rightarrow> heap \<Rightarrow> nat \<Rightarrow> heap \<times> (py_exception + unit)" where
  "coerce_loop parse [] h p = (h, Inr ())"
| "coerce_loop parse (col # cols) h p =
     (if col \<in> set (columns (h ! p)) then
        coerce_loop parse cols (h[p := set_column (h ! p) col (to_numeric parse)]) p
      else (h, Inl KeyError))"

definition isna :: "cell \<Rightarrow> bool" where
  "isna c = (case c of NaN \<Rightarrow> True | _ \<Rightarrow> False)"

definition any_isna :: "dataframe \<Rightarrow> string list \<Rightarrow> bool" where
  "any_isna df cols = list_ex (\<lambda>(i, r). list_ex (\<lambda>c. isna (r c)) cols) (rows df)"

definition dropna :: "dataframe \<Rightarrow> string list \<Rightarrow> dataframe" where
  "dropna df cols = df\<lparr>rows := filter (\<lambda>(i, r). \<not> list_ex (\<lambda>c. isna (r c)) cols) (rows df)\<rparr>"

text \<open>
  Series statistics skip missing values.  The mean of no value and the sample standard
  deviation (one degree of freedom removed) of fewer than two values are \<^verbatim>\<open>nan\<close>,
  written \<open>None\<close>; arithmetic on \<^verbatim>\<open>nan\<close> gives \<^verbatim>\<open>nan\<close> and every comparison with it
  is false.
\<close>

definition numbers :: "cell list \<Rightarrow> real list" where
  "numbers cs = concat (map (\<lambda>c. case c of Num x \<Rightarrow> [x] | _ \<Rightarrow> []) cs)"

definition series :: "dataframe \<Rightarrow> string \<Rightarrow> cell list" where
  "series df col = map (\<lambda>(i, r). r col) (rows df)"

definition series_mean :: "cell list \<Rightarrow> real option" where
  "series_mean cs =
     (let xs = numbers cs in
      if xs = [] then None else Some (sum_list xs / real (length xs)))"

definition series_std :: "cell list \<Rightarrow> real option" where
  "series_std cs =
     (let xs = numbers cs in
      if length xs < 2 then None
      else
        let m = sum_list xs / real (length xs) in
        Some (sqrt (sum_list (map (\<lambda>x. (x - m)\<^sup>2) xs) / real (length xs - 1))))"

definition lower_of :: "real option \<Rightarrow> real \<Rightarrow> real option \<Rightarrow> real option" where
  "lower_of mean_v threshold sd =
     (case (mean_v, sd) of (Some m, Some s) \<Rightarrow> Some (m - threshold * s) | _ \<Rightarrow> None)"

definition upper_of :: "real option \<Rightarrow> real \<Rightarrow> real option \<Rightarrow> real option" where
  "upper_of mean_v threshold sd =
     (case (mean_v, sd) of (Some m, Some s) \<Rightarrow> Some (m + threshold * s) | _ \<Rightarrow> None)"

definition cell_lt :: "cell \<Rightarrow> real option \<Rightarrow> bool" where
  "cell_lt c b = (case (c, b) of (Num x, Some y) \<Rightarrow> x < y | _ \<Rightarrow> False)"

definition cell_gt :: "cell \<Rightarrow> real option \<Rightarrow> bool" where
  "cell_gt c b = (case (c, b) of (Num x, Some y) \<Rightarrow> x > y | _ \<Rightarrow> False)"

text \<open>
  The second loop, one column per round: bounds from the frame the variable holds now,
  the mask of outliers, and, only when the mask has a true entry, a new frame without
  the masked rows, to which the variable is rebound.
\<close>

fun outlier_loop :: "real \<Rightarrow> string list \<Rightarrow> heap \<Rightarrow> nat \<Rightarrow> heap \<times> (py_exception + nat)" where
  "outlier_loop threshold [] h p = (h, Inr p)"
| "outlier_loop threshold (col # cols) h p =
     (let processed_df = h ! p in
      if col \<notin> set (columns processed_df) then (h, Inl KeyError)
      else
        let mean_v = series_mean (series processed_df col);
            standard_deviation = series_std (series processed_df col);
            lower_bound = lower_of mean_v threshold standard_deviation;
            upper_bound = upper_of mean_v threshold standard_deviation;
            outliers = (\<lambda>(i, r). cell_lt (r col) lower_bound \<or> cell_gt (r col) upper_bound)
        in
          if list_ex outliers (rows processed_df) then
            (case alloc h (processed_df\<lparr>rows := filter (\<lambda>x. \<not> outliers x) (rows processed_df)\<rparr>) of
               (h', p') \<Rightarrow> outlier_loop threshold cols h' p')
          else outlier_loop threshold cols h p)"

text \<open>\<^verbatim>\<open>preprocess_data\<close>: copy, coerce, drop the incomplete rows, filter the outliers.\<close>

definition preprocess_data ::
  "(string \<Rightarrow> real option) \<Rightarrow> config \<Rightarrow> heap \<Rightarrow> nat \<Rightarrow> heap \<times> (py_exception + nat)" where
  "preprocess_data parse cfg h df =
     (case alloc h (h ! df) of
        (h1, processed_df) \<Rightarrow>
          (case coerce_loop parse (required_cols cfg) h1 processed_df of
             (h2, Inl e) \<Rightarrow> (h2, Inl e)
           | (h2, Inr u) \<Rightarrow>
               (case (if any_isna (h2 ! processed_df) (required_cols cfg)
                      then alloc h2 (dropna (h2 ! processed_df) (required_cols cfg))
                      else (h2, processed_df)) of
                  (h3, processed_df') \<Rightarrow>
                    outlier_loop (outlier_threshold cfg) (required_cols cfg) h3 processed_df')))"

text \<open>
  The outlier pass as the specification words it, on frames as values: for each column
  in order, mean and sample standard deviation over the rows that are left, the two
  bounds, and every row strictly outside them dropped.
\<close>

definition strictly_outside :: "cell \<Rightarrow> real option \<Rightarrow> real option \<Rightarrow> bool" where
  "strictly_outside c lo hi \<longleftrightarrow> cell_lt c lo \<or> cell_gt c hi"

definition drop_outliers_spec :: "real \<Rightarrow> string \<Rightarrow> dataframe \<Rightarrow> dataframe" where
  "drop_outliers_spec k col df =
     (let mu = series_mean (series df col); sigma = series_std (series df col) in
      df\<lparr>rows := filter (\<lambda>(i, r). \<not> strictly_outside (r col) (lower_of mu k sigma) (upper_of mu k sigma))
                    (rows df)\<rparr>)"

fun sequential_outlier_spec :: "real \<Rightarrow> string list \<Rightarrow> dataframe \<Rightarrow> dataframe" where
  "sequential_outlier_spec k [] df = df"
| "sequential_outlier_spec k (col # cols) df =
     sequential_outlier_spec k cols (drop_outliers_spec k col df)"

text \<open>What the first two steps make of one input row, and which input rows they keep.\<close>

fun coerce_row :: "(string \<Rightarrow> real option) \<Rightarrow> string list \<Rightarrow> (string \<Rightarrow> cell) \<Rightarrow> (string \<Rightarrow> cell)" where
  "coerce_row parse [] r = r"
| "coerce_row parse (col # cols) r = coerce_row parse cols (r(col := to_numeric parse (r col)))"

definition non_missing :: "(string \<Rightarrow> real option) \<Rightarrow> string list \<Rightarrow> (string \<Rightarrow> cell) \<Rightarrow> bool" where
  "non_missing parse cols r = list_all (\<lambda>c. \<not> isna (to_numeric parse (r c))) cols"

text \<open>The frame that the first two steps leave: the complete rows, coerced.\<close>

definition cleaned :: "(string \<Rightarrow> real option) \<Rightarrow> string list \<Rightarrow> dataframe \<Rightarrow> dataframe" where
  "cleaned parse cols df =
     df\<lparr>rows := map (\<lambda>(i, r). (i, coerce_row parse cols r))
                  (filter (\<lambda>(i, r). non_missing parse cols r) (rows df))\<rparr>"

section \<open>Splitting\<close>

text \<open>
  \<^verbatim>\<open>df[cols].to_numpy()\<close> and \<^verbatim>\<open>df[col].to_numpy()\<close>: selecting a column the frame does
  not have raises.
\<close>

definition to_numpy_cols :: "dataframe \<Rightarrow> string list \<Rightarrow> py_exception + cell list list" where
  "to_numpy_cols df cols =
     (if list_all (\<lambda>c. c \<in> set (columns df)) cols
      then Inr (map (\<lambda>(i, r). map r cols) (rows df))
      else Inl KeyError)"

definition to_numpy_col :: "dataframe \<Rightarrow> string \<Rightarrow> py_exception + cell list" where
  "to_numpy_col df col =
     (if col \<in> set (columns df) then Inr (series df col) else Inl KeyError)"

text \<open>
  The random number generator of the library is a parameter.  \<open>seeded seed n\<close> is the
  permutation of \<open>n\<close> indices that a generator freshly seeded with \<open>seed\<close> draws;
  \<open>ambient g n\<close> is the one drawn from the process-wide generator in state \<open>g\<close>,
  together with the state it is left in.
\<close>

definition draw_permutation ::
  "(int \<Rightarrow> nat \<Rightarrow> nat list) \<Rightarrow> ('g \<Rightarrow> nat \<Rightarrow> nat list \<times> 'g) \<Rightarrow> int option \<Rightarrow> 'g \<Rightarrow> nat \<Rightarrow> nat list \<times> 'g" where
  "draw_permutation seeded ambient rs g n =
     (case rs of Some seed \<Rightarrow> (seeded seed n, g) | None \<Rightarrow> ambient g n)"

text \<open>
  The sizes of the library's shuffle split for a fractional test size: the test set
  gets the ceiling of \<open>test_size * n\<close>, the training set the rest, and an empty
  training set is refused.
\<close>

definition split_sizes :: "real \<Rightarrow> nat \<Rightarrow> py_exception + (nat \<times> nat)" where
  "split_sizes ts n_samples =
     (if ts \<le> 0 \<or> ts \<ge> 1 then Inl ValueError
      else
        let n_test = nat \<lceil>ts * real n_samples\<rceil>;
            n_train = n_samples - n_test
        in if n_train = 0 then Inl ValueError else Inr (n_train, n_test))"

text \<open>
  The indices: the first \<open>n_test\<close> entries of the permutation are the test rows, the
  next \<open>n_train\<close> the training rows.
\<close>

definition split_indices ::
  "(int \<Rightarrow> nat \<Rightarrow> nat list) \<Rightarrow> ('g \<Rightarrow> nat \<Rightarrow> nat list \<times> 'g) \<Rightarrow> real \<Rightarrow> int option \<Rightarrow> 'g \<Rightarrow> nat
     \<Rightarrow> 'g \<times> (py_exception + (nat list \<times> nat list))" where
  "split_indices seeded ambient ts rs g n_samples =
     (case split_sizes ts n_samples of
        Inl e \<Rightarrow> (g, Inl e)
      | Inr (n_train, n_test) \<Rightarrow>
          (case draw_permutation seeded ambient rs g n_samples of
             (permutation, g') \<Rightarrow>
               (g', Inr (take n_train (drop n_test permutation), take n_test permutation))))"

definition take_rows :: "'a list \<Rightarrow> nat list \<Rightarrow> py_exception + 'a list" where
  "take_rows xs ind =
     (if list_all (\<lambda>i. i < length xs) ind then Inr (map (\<lambda>i. xs ! i) ind) else Inl IndexError)"

definition train_test_split ::
  "(int \<Rightarrow> nat \<Rightarrow> nat list) \<Rightarrow> ('g \<Rightarrow> nat \<Rightarrow> nat list \<times> 'g) \<Rightarrow> 'g \<Rightarrow> cell list list \<Rightarrow> cell list
     \<Rightarrow> real \<Rightarrow> int option \<Rightarrow> 'g \<times> (py_exception + ModelData)" where
  "train_test_split seeded ambient g X y ts rs =
     (if length X \<noteq> length y then (g, Inl ValueError)
      else
        case split_indices seeded ambient ts rs g (length X) of
          (g', Inl e) \<Rightarrow> (g', Inl e)
        | (g', Inr (train, test)) \<Rightarrow>
            (case (take_rows X train, take_rows X test, take_rows y train, take_rows y test) of
               (Inr Xtr, Inr Xte, Inr ytr, Inr yte) \<Rightarrow>
                 (g', Inr \<lparr>X_trained = Xtr, X_test = Xte, y_trained = ytr, y_test = yte\<rparr>)
             | _ \<Rightarrow> (g', Inl IndexError)))"

text \<open>\<^verbatim>\<open>prepare_model_data\<close>.\<close>

definition prepare_model_data ::
  "(int \<Rightarrow> nat \<Rightarrow> nat list) \<Rightarrow> ('g \<Rightarrow> nat \<Rightarrow> nat list \<times> 'g) \<Rightarrow> config \<Rightarrow> 'g \<Rightarrow> dataframe
     \<Rightarrow> 'g \<times> (py_exception + ModelData)" where
  "prepare_model_data seeded ambient cfg g df =
     (case to_numpy_cols df (feature_cols cfg) of
        Inl e \<Rightarrow> (g, Inl e)
      | Inr X \<Rightarrow>
          (case to_numpy_col df (target_col cfg) of
             Inl e \<Rightarrow> (g, Inl e)
           | Inr y \<Rightarrow> train_test_split seeded ambient g X y (test_size cfg) (random_state cfg)))"


section \<open>Scaling, fitting, predicting\<close>

text \<open>
  Input validation of the library: a matrix must hold numbers only, have a row, and
  be as wide as the fitted feature count; a vector must hold numbers only.  (A frame
  that went through \<^verbatim>\<open>preprocess_data\<close> holds numbers in every required column.)
\<close>

definition as_float :: "cell \<Rightarrow> real option" where
  "as_float c = (case c of Num x \<Rightarrow> Some x | _ \<Rightarrow> None)"

definition check_array :: "cell list list \<Rightarrow> py_exception + ndarray" where
  "check_array X =
     (if X \<noteq> [] \<and> list_all (list_all (\<lambda>c. as_float c \<noteq> None)) X
      then Inr (map (map (\<lambda>c. the (as_float c))) X)
      else Inl ValueError)"

definition check_vector :: "cell list \<Rightarrow> py_exception + real list" where
  "check_vector y =
     (if y \<noteq> [] \<and> list_all (\<lambda>c. as_float c \<noteq> None) y
      then Inr (map (\<lambda>c. the (as_float c)) y)
      else Inl ValueError)"

definition check_n_features :: "nat \<Rightarrow> ndarray \<Rightarrow> bool" where
  "check_n_features n_features_in X = list_all (\<lambda>row. length row = n_features_in) X"

definition scale_row :: "standard_scaler \<Rightarrow> real list \<Rightarrow> real list" where
  "scale_row s row = map2 (\<lambda>d sd. d / sd) (map2 (\<lambda>x m. x - m) row (mean s)) (scale s)"

definition transform :: "standard_scaler \<Rightarrow> cell list list \<Rightarrow> py_exception + ndarray" where
  "transform s X =
     (case check_array X of
        Inl e \<Rightarrow> Inl e
      | Inr Xf \<Rightarrow>
          if check_n_features (length (mean s)) Xf then Inr (map (scale_row s) Xf)
          else Inl ValueError)"

definition dot :: "real list \<Rightarrow> real list \<Rightarrow> real" where
  "dot xs ys = sum_list (map2 (*) xs ys)"

definition predict :: "linear_regression \<Rightarrow> ndarray \<Rightarrow> py_exception + real list" where
  "predict m X =
     (if X \<noteq> [] \<and> check_n_features (length (coef m)) X
      then Inr (map (\<lambda>row. dot row (coef m) + intercept m) X)
      else Inl ValueError)"

text \<open>
  Fitting the scaler: per column the mean and the population standard deviation, a
  zero deviation replaced by one.
\<close>

definition column_mean :: "real list \<Rightarrow> real" where
  "column_mean xs = sum_list xs / real (length xs)"

definition column_scale :: "real list \<Rightarrow> real" where
  "column_scale xs =
     (let sd = sqrt (sum_list (map (\<lambda>x. (x - column_mean xs)\<^sup>2) xs) / real (length xs))
      in if sd = 0 then 1 else sd)"

definition scaler_fit :: "cell list list \<Rightarrow> py_exception + standard_scaler" where
  "scaler_fit X =
     (case check_array X of
        Inl e \<Rightarrow> Inl e
      | Inr Xf \<Rightarrow>
          let n = length (hd Xf) in
          if check_n_features n Xf then
            Inr \<lparr>mean = map (\<lambda>j. column_mean (map (\<lambda>row. row ! j) Xf)) [0..<n],
                 scale = map (\<lambda>j. column_scale (map (\<lambda>row. row ! j) Xf)) [0..<n]\<rparr>
          else Inl ValueError)"

text \<open>
  \<^verbatim>\<open>train_model\<close>.  The least-squares solver of the library is the parameter
  \<open>lstsq\<close>.
\<close>

definition train_model ::
  "(ndarray \<Rightarrow> real list \<Rightarrow> py_exception + linear_regression) \<Rightarrow> ModelData
     \<Rightarrow> py_exception + (linear_regression \<times> standard_scaler)" where
  "train_model lstsq data =
     (case scaler_fit (X_trained data) of
        Inl e \<Rightarrow> Inl e
      | Inr scaler_v \<Rightarrow>
          (case transform scaler_v (X_trained data) of
             Inl e \<Rightarrow> Inl e
           | Inr X_scaled \<Rightarrow>
               (case check_vector (y_trained data) of
                  Inl e \<Rightarrow> Inl e
                | Inr y \<Rightarrow>
                    (case lstsq X_scaled y of
                       Inl e \<Rightarrow> Inl e
                     | Inr model_v \<Rightarrow> Inr (model_v, scaler_v)))))"

text \<open>\<^verbatim>\<open>make_predictions\<close>: the scaler is handed the required columns.\<close>

definition make_predictions ::
  "config \<Rightarrow> dataframe \<Rightarrow> linear_regression \<Rightarrow> standard_scaler \<Rightarrow> py_exception + real list" where
  "make_predictions cfg df model_v scaler_v =
     (case (case to_numpy_cols df (required_cols cfg) of
              Inl e \<Rightarrow> Inl e
            | Inr X \<Rightarrow>
                (case transform scaler_v X of
                   Inl e \<Rightarrow> Inl e
                 | Inr X_scaled \<Rightarrow> predict model_v X_scaled)) of
        Inl e \<Rightarrow> Inl (ModelOperationError (FailedToMakePrediction e))
      | Inr predictions \<Rightarrow> Inr predictions)"

section \<open>Evaluation\<close>

text \<open>
  The two metrics of the library.  \<^verbatim>\<open>r2_score\<close> is \<^verbatim>\<open>nan\<close> on fewer than two
  samples; with a constant target it is one for a perfect fit and zero otherwise.
\<close>

definition r2_score :: "real list \<Rightarrow> real list \<Rightarrow> py_exception + real option" where
  "r2_score y_true y_pred =
     (if length y_true \<noteq> length y_pred \<or> y_true = [] then Inl ValueError
      else if length y_pred < 2 then Inr None
      else
        let numerator = sum_list (map2 (\<lambda>t p. (t - p)\<^sup>2) y_true y_pred);
            avg = sum_list y_true / real (length y_true);
            denominator = sum_list (map (\<lambda>t. (t - avg)\<^sup>2) y_true)
        in if denominator \<noteq> 0 \<and> numerator \<noteq> 0 then Inr (Some (1 - numerator / denominator))
           else if numerator \<noteq> 0 then Inr (Some 0)
           else Inr (Some 1))"

definition mean_squared_error :: "real list \<Rightarrow> real list \<Rightarrow> py_exception + real" where
  "mean_squared_error y_true y_pred =
     (if length y_true \<noteq> length y_pred \<or> y_true = [] then Inl ValueError
      else Inr (sum_list (map2 (\<lambda>t p. (t - p)\<^sup>2) y_true y_pred) / real (length y_true)))"

text \<open>Sequencing: the first raise ends the run of statements.\<close>

definition then_do :: "py_exception + 'a \<Rightarrow> ('a \<Rightarrow> py_exception + 'b) \<Rightarrow> py_exception + 'b" where
  "then_do r f = (case r of Inl e \<Rightarrow> Inl e | Inr v \<Rightarrow> f v)"

text \<open>\<^verbatim>\<open>evaluate_model\<close>, statement by statement.\<close>

definition evaluate_model ::
  "ModelData \<Rightarrow> linear_regression \<Rightarrow> standard_scaler \<Rightarrow> py_exception + ModelResult" where
  "evaluate_model data model_v scaler_v =
     then_do (transform scaler_v (X_trained data)) (\<lambda>X_trained_scaled.
     then_do (transform scaler_v (X_test data)) (\<lambda>X_test_scaled.
     then_do (predict model_v X_trained_scaled) (\<lambda>trained_predictions.
     then_do (predict model_v X_test_scaled) (\<lambda>test_predictions_v.
     then_do (check_vector (y_trained data)) (\<lambda>ytr.
     then_do (r2_score ytr trained_predictions) (\<lambda>train_r2_v.
     then_do (check_vector (y_test data)) (\<lambda>yte.
     then_do (r2_score yte test_predictions_v) (\<lambda>test_r2_v.
     then_do (mean_squared_error ytr trained_predictions) (\<lambda>train_mse.
     then_do (mean_squared_error yte test_predictions_v) (\<lambda>test_mse.
       Inr \<lparr>model = model_v, scaler = scaler_v,
            train_predictions = trained_predictions, test_predictions = test_predictions_v,
            train_r2 = train_r2_v, test_r2 = test_r2_v,
            train_rmse = sqrt train_mse, test_rmse = sqrt test_mse\<rparr>))))))))))"

section \<open>The formula in original units\<close>

text \<open>
  \<^verbatim>\<open>get_model_formula\<close>.  The loop appends \<^verbatim>\<open>coef_[i] / scale_[i]\<close> for every index of
  \<^verbatim>\<open>coef_\<close> (an index past the end of \<^verbatim>\<open>scale_\<close> raises).  The intercept expression
  comes after the loop and reads the loop variable \<^verbatim>\<open>i\<close>, which then holds the last
  index (and is unbound when \<^verbatim>\<open>coef_\<close> is empty): the scalar \<^verbatim>\<open>coef_[i]\<close> multiplies the
  whole vector \<^verbatim>\<open>mean_\<close>, the product is divided by \<^verbatim>\<open>scale_\<close> entry by entry, and
  \<^verbatim>\<open>sum\<close> adds the entries up from zero.
\<close>

definition broadcast2 ::
  "(real \<Rightarrow> real \<Rightarrow> real) \<Rightarrow> real list \<Rightarrow> real list \<Rightarrow> py_exception + real list" where
  "broadcast2 f xs ys =
     (if length xs = length ys then Inr (map2 f xs ys)
      else if length xs = 1 then Inr (map (f (hd xs)) ys)
      else if length ys = 1 then Inr (map (\<lambda>x. f x (hd ys)) xs)
      else Inl ValueError)"

definition get_model_formula :: "ModelResult \<Rightarrow> py_exception + (real \<times> real list)" where
  "get_model_formula result =
     (let model_v = model result; scaler_v = scaler result; n = length (coef model_v) in
      if length (scale scaler_v) < n then Inl IndexError
      else
        let coefficients = map (\<lambda>i. coef model_v ! i / scale scaler_v ! i) [0..<n] in
        if n = 0 then Inl UnboundLocalError
        else
          let i = n - 1 in
          (case broadcast2 (\<lambda>mu sd. coef model_v ! i * mu / sd) (mean scaler_v) (scale scaler_v) of
             Inl e \<Rightarrow> Inl e
           | Inr terms \<Rightarrow> Inr (intercept model_v - foldl (+) 0 terms, coefficients)))"

text \<open>
  The formula of the specification: each coefficient divided by its deviation, and the
  intercept less the sum over the features of coefficient times mean over deviation.
\<close>

definition formula_spec :: "linear_regression \<Rightarrow> standard_scaler \<Rightarrow> real \<times> real list" where
  "formula_spec m s =
     (intercept m -
        sum_list (map (\<lambda>i. coef m ! i * mean s ! i / scale s ! i) [0..<length (coef m)]),
      map (\<lambda>i. coef m ! i / scale s ! i) [0..<length (coef m)])"

text \<open>The prediction of a formula on a raw row.\<close>

definition predict_raw :: "real \<times> real list \<Rightarrow> real list \<Rightarrow> real" where
  "predict_raw formula row = dot row (snd formula) + fst formula"

section \<open>Persistence\<close>










section \<open>Concrete inputs\<close>

text \<open>
  Four training rows whose prices follow \<open>50 + 0.1 * square_footage + 10 * bedrooms\<close>
  exactly, the scaler fitted on them, and the linear model that reproduces the prices
  from the scaled rows without residual.
\<close>

definition example_X :: "cell list list" where
  "example_X = [[Num 500, Num 2], [Num 1500, Num 2], [Num 500, Num 4], [Num 1500, Num 4]]"

definition example_model :: linear_regression where
  "example_model = \<lparr>coef = [50, 10], intercept = 180\<rparr>"

definition example_scaler :: standard_scaler where
  "example_scaler = \<lparr>mean = [1000, 3], scale = [500, 1]\<rparr>"

definition example_result :: ModelResult where
  "example_result =
     \<lparr>model = example_model, scaler = example_scaler,
      train_predictions = [120, 220, 140, 240], test_predictions = [120],
      train_r2 = Some 1, test_r2 = None, train_rmse = 0, test_rmse = 0\<rparr>"

text \<open>A file system with a well-formed table, and a table that lacks required columns.\<close>

definition example_table :: dataframe where
  "example_table =
     \<lparr>columns = [''id'', ''square_footage'', ''bedrooms'', ''price_thousands''],
      rows = [(0, (\<lambda>c. NaN)(''id'' := Str ''a'', ''square_footage'' := Num 500,
                   ''bedrooms'' := Str ''two'', ''price_thousands'' := Num 120))]\<rparr>"

definition example_fs :: filesystem where
  "example_fs =
     Map.empty(''resources'' \<mapsto> Dir,
       ''resources/house.csv'' \<mapsto> File (Table example_table),
       ''resources/short.csv'' \<mapsto> File (Table (example_table\<lparr>columns := [''id'', ''bedrooms'']\<rparr>)))"

text \<open>
  A table of six houses, the split of it that the configuration asks for, and two stand-ins
  for the generator of the library: a seeded one that reverses the indices, and a
  process-wide one whose permutation depends on its state.
\<close>

definition reversed_permutation :: "int \<Rightarrow> nat \<Rightarrow> nat list" where
  "reversed_permutation seed n = rev [0..<n]"

definition rotating_generator :: "nat \<Rightarrow> nat \<Rightarrow> nat list \<times> nat" where
  "rotating_generator g n = (rotate g [0..<n], Suc g)"

definition house :: "real \<Rightarrow> real \<Rightarrow> real \<Rightarrow> string \<Rightarrow> cell" where
  "house sqft beds price =
     (\<lambda>c. NaN)(''square_footage'' := Num sqft, ''bedrooms'' := Num beds, ''price_thousands'' := Num price)"

definition six_houses :: dataframe where
  "six_houses =
     \<lparr>columns = [''square_footage'', ''bedrooms'', ''price_thousands''],
      rows = [(0, house 500 2 120), (1, house 1500 2 220), (2, house 500 4 140),
              (3, house 1500 4 240), (4, house 1000 3 180), (5, house 2000 3 280)]\<rparr>"

definition six_houses_split :: ModelData where
  "six_houses_split =
     \<lparr>X_trained = [[Num 1500, Num 4], [Num 500, Num 4], [Num 1500, Num 2], [Num 500, Num 2]],
      X_test = [[Num 2000, Num 3], [Num 1000, Num 3]],
      y_trained = [Num 240, Num 140, Num 220, Num 120],
      y_test = [Num 280, Num 180]\<rparr>"

text \<open>
  A table of six listings for the outlier pass with threshold 1: one row has an
  unparseable square footage, one has its bedroom count as the string \<open>4\<close>.
\<close>

definition listing :: "cell \<Rightarrow> cell \<Rightarrow> cell \<Rightarrow> string \<Rightarrow> cell" where
  "listing sqft beds price =
     (\<lambda>c. NaN)(''square_footage'' := sqft, ''bedrooms'' := beds, ''price_thousands'' := price)"

definition survey :: dataframe where
  "survey =
     \<lparr>columns = [''square_footage'', ''bedrooms'', ''price_thousands''],
      rows = [(0, listing (Num 7) (Num 100) (Num 0)),
              (1, listing (Num 0) (Num 0) (Num 5)),
              (2, listing (Num 0) (Num 4) (Num 11)),
              (3, listing (Num 4) (Str ''4'') (Num 13)),
              (4, listing (Num 4) (Num 4) (Num 0)),
              (5, listing (Str ''n/a'') (Num 1) (Num 1))]\<rparr>"

definition survey_parse :: "string \<Rightarrow> real option" where
  "survey_parse s = (if s = ''4'' then Some 4 else None)"

definition survey_config :: config where
  "survey_config = CONFIG\<lparr>outlier_threshold := 1\<rparr>"


text \<open>
  The evaluation of the example model on the split of the six houses, a solver that
  returns the example model, and the default paths of the command line.
\<close>

definition six_houses_result :: ModelResult where
  "six_houses_result =
     \<lparr>model = example_model, scaler = example_scaler,
      train_predictions = [240, 140, 220, 120], test_predictions = [280, 180],
      train_r2 = Some 1, test_r2 = Some 1, train_rmse = 0, test_rmse = 0\<rparr>"

definition fixed_solver :: "ndarray \<Rightarrow> real list \<Rightarrow> py_exception + linear_regression" where
  "fixed_solver X y = Inr example_model"





section \<open>Formula equivalence\<close>

lemma sqrt_250000: "sqrt 250000 = 500"
  by (rule real_sqrt_unique) simp_all

lemma dot_sum: "length xs = length ys \<Longrightarrow> dot xs ys = (\<Sum>i<length xs. xs ! i * ys ! i)"
  unfolding dot_def by (simp add: sum_list_sum_nth atLeast0LessThan)

text \<open>
  The formula of the specification does what the specification asks of it: on every raw
  row it predicts what the fitted model predicts on the scaled row.
\<close>

lemma formula_spec_equivalence:
  assumes "length (coef m) = length row" "length (mean s) = length row"
    "length (scale s) = length row"
  shows "predict_raw (formula_spec m s) row = dot (scale_row s row) (coef m) + intercept m"
proof -
  let ?n = "length row"
  have a: "dot row (snd (formula_spec m s)) = (\<Sum>i<?n. row ! i * (coef m ! i / scale s ! i))"
    using assms by (simp add: dot_sum formula_spec_def)
  have b: "fst (formula_spec m s) = intercept m - (\<Sum>i<?n. coef m ! i * mean s ! i / scale s ! i)"
    using assms by (simp add: formula_spec_def sum_list_sum_nth atLeast0LessThan)
  have c: "dot (scale_row s row) (coef m) = (\<Sum>i<?n. (row ! i - mean s ! i) / scale s ! i * coef m ! i)"
    using assms by (simp add: dot_sum scale_row_def)
  have "(\<Sum>i<?n. row ! i * (coef m ! i / scale s ! i)) - (\<Sum>i<?n. coef m ! i * mean s ! i / scale s ! i)
      = (\<Sum>i<?n. (row ! i - mean s ! i) / scale s ! i * coef m ! i)"
    unfolding sum_subtractf [symmetric]
    by (rule sum.cong) (simp_all add: diff_divide_distrib algebra_simps)
  then show ?thesis
    unfolding predict_raw_def a b c by simp
qed

text \<open>
  C1.  The formula that \<^verbatim>\<open>get_model_formula\<close> returns is not the one of the
  specification.  On the four example rows the scaler of the pipeline is
  \<open>example_scaler\<close> and \<open>example_model\<close> fits the prices exactly; the specified
  intercept is 50, the code returns 130 (the last coefficient times the sum of
  mean over deviation, taken from 180), and the raw-unit predictions of the returned
  formula are 80 above the predictions of the model on every row.
\<close>

theorem get_model_formula_intercept_diverges:
  "scaler_fit example_X = Inr example_scaler
   \<and> then_do (transform example_scaler example_X) (predict example_model) = Inr [120, 220, 140, 240]
   \<and> get_model_formula example_result = Inr (130, [1 / 10, 10])
   \<and> formula_spec example_model example_scaler = (50, [1 / 10, 10])
   \<and> map (predict_raw (130, [1 / 10, 10])) [[500, 2], [1500, 2], [500, 4], [1500, 4]]
       = [200, 300, 220, 320]"
proof -
  have "scaler_fit example_X = Inr example_scaler"
    by (simp add: scaler_fit_def check_array_def as_float_def check_n_features_def example_X_def
        example_scaler_def column_mean_def column_scale_def upt_rec sqrt_250000)
  moreover have "then_do (transform example_scaler example_X) (predict example_model)
      = Inr [120, 220, 140, 240]"
    by (simp add: then_do_def transform_def check_array_def as_float_def check_n_features_def
        scale_row_def example_model_def example_scaler_def example_X_def predict_def dot_def)
  moreover have "get_model_formula example_result = Inr (130, [1 / 10, 10])"
    by (simp add: get_model_formula_def example_result_def example_model_def example_scaler_def
        broadcast2_def)
  moreover have "formula_spec example_model example_scaler = (50, [1 / 10, 10])"
    by (simp add: formula_spec_def example_model_def example_scaler_def upt_rec)
  moreover have "map (predict_raw (130, [1 / 10, 10])) [[500, 2], [1500, 2], [500, 4], [1500, 4]]
      = [200, 300, 220, 320]"
    by (simp add: predict_raw_def dot_def)
  ultimately show ?thesis by blast
qed

section \<open>Loading\<close>

lemma load_data_cases:
  "load_data cfg fs p =
     (case fs p of
        Some (File (Table df)) \<Rightarrow>
          if set (required_cols cfg) \<subseteq> set (columns df) then Inr df
          else Inl (DataProcessingError (ErrorLoadingData (DataProcessingError
                  (ColumnsMissing (set (required_cols cfg) - set (columns df))))))
      | Some (File c) \<Rightarrow> Inl (DataProcessingError (ErrorLoadingData ParserError))
      | _ \<Rightarrow> Inl (DataProcessingError (FileDoesNotExist p)))"
  by (auto simp: load_data_def isfile_def read_csv_def Let_def
      split: option.splits node.splits file_content.splits)

text \<open>
  C6.  \<^verbatim>\<open>load_data\<close> raises \<^verbatim>\<open>DataProcessingError\<close> exactly when the path is not a
  file, the file cannot be read as a table, or the table lacks a required column; a
  table with every required column (and any others) is returned as it is; and no
  other exception leaves the function.
\<close>

theorem load_data_column_validation:
  "(is_DataProcessingError (load_data cfg fs p) \<longleftrightarrow>
      \<not> isfile fs p \<or> (\<exists>e. read_csv fs p = Inl e)
      \<or> (\<exists>df. read_csv fs p = Inr df \<and> \<not> set (required_cols cfg) \<subseteq> set (columns df)))
   \<and> (\<forall>df. fs p = Some (File (Table df)) \<and> set (required_cols cfg) \<subseteq> set (columns df)
          \<longrightarrow> load_data cfg fs p = Inr df)
   \<and> (\<forall>e. load_data cfg fs p = Inl e \<longrightarrow> (\<exists>m. e = DataProcessingError m))"
  unfolding load_data_cases
  by (auto simp: isfile_def read_csv_def split: option.splits node.splits file_content.splits)

theorem load_data_column_validation_witness:
  "load_data CONFIG example_fs ''resources/house.csv'' = Inr example_table
   \<and> is_DataProcessingError (load_data CONFIG example_fs ''resources/short.csv'')
   \<and> is_DataProcessingError (load_data CONFIG example_fs ''resources/none.csv'')
   \<and> is_DataProcessingError (load_data CONFIG example_fs ''resources'')"
proof -
  have a: "example_fs ''resources/house.csv'' = Some (File (Table example_table))"
    by (simp add: example_fs_def)
  have b: "set (required_cols CONFIG) \<subseteq> set (columns example_table)"
    by (simp add: CONFIG_def example_table_def)
  have c: "read_csv example_fs ''resources/short.csv''
      = Inr (example_table\<lparr>columns := [''id'', ''bedrooms'']\<rparr>)"
    by (simp add: read_csv_def example_fs_def)
  have d: "\<not> set (required_cols CONFIG)
      \<subseteq> set (columns (example_table\<lparr>columns := [''id'', ''bedrooms'']\<rparr>))"
    by (simp add: CONFIG_def)
  have e: "\<not> isfile example_fs ''resources/none.csv''" "\<not> isfile example_fs ''resources''"
    by (simp_all add: isfile_def example_fs_def)
  from load_data_column_validation [of CONFIG example_fs "''resources/house.csv''"] a b
  have 1: "load_data CONFIG example_fs ''resources/house.csv'' = Inr example_table" by blast
  from load_data_column_validation [of CONFIG example_fs "''resources/short.csv''"] c d
  have 2: "is_DataProcessingError (load_data CONFIG example_fs ''resources/short.csv'')" by blast
  from load_data_column_validation [of CONFIG example_fs "''resources/none.csv''"] e
  have 3: "is_DataProcessingError (load_data CONFIG example_fs ''resources/none.csv'')" by blast
  from load_data_column_validation [of CONFIG example_fs "''resources''"] e
  have 4: "is_DataProcessingError (load_data CONFIG example_fs ''resources'')" by blast
  from 1 2 3 4 show ?thesis by blast
qed

section \<open>Splitting\<close>






lemma split_sizes_six: "split_sizes (test_size CONFIG) 6 = Inr (4, 2)"
  by (simp add: split_sizes_def CONFIG_def)

lemma upt_6: "[0..<6] = [0, 1, 2, 3, 4, 5]"
  by (simp add: upt_rec)

lemma prepare_six_houses:
  "prepare_model_data reversed_permutation rotating_generator CONFIG g six_houses
     = (g, Inr six_houses_split)"
proof -
  have X: "to_numpy_cols six_houses (feature_cols CONFIG)
      = Inr [[Num 500, Num 2], [Num 1500, Num 2], [Num 500, Num 4], [Num 1500, Num 4],
             [Num 1000, Num 3], [Num 2000, Num 3]]"
    by (simp add: to_numpy_cols_def six_houses_def CONFIG_def house_def)
  have y: "to_numpy_col six_houses (target_col CONFIG)
      = Inr [Num 120, Num 220, Num 140, Num 240, Num 180, Num 280]"
    by (simp add: to_numpy_col_def series_def six_houses_def CONFIG_def house_def)
  have i: "split_indices reversed_permutation rotating_generator (test_size CONFIG)
      (random_state CONFIG) g 6 = (g, Inr ([3, 2, 1, 0], [5, 4]))"
    unfolding split_indices_def split_sizes_six
    by (simp add: draw_permutation_def reversed_permutation_def CONFIG_def upt_6)
  have i': "split_indices reversed_permutation rotating_generator (test_size CONFIG)
      (random_state CONFIG) g
      (length [[Num 500, Num 2], [Num 1500, Num 2], [Num 500, Num 4], [Num 1500, Num 4],
               [Num 1000, Num 3], [Num 2000, Num 3]]) = (g, Inr ([3, 2, 1, 0], [5, 4]))"
    by (subst i [symmetric]) (simp add: eval_nat_numeral)
  have t: "train_test_split reversed_permutation rotating_generator g
      [[Num 500, Num 2], [Num 1500, Num 2], [Num 500, Num 4], [Num 1500, Num 4],
       [Num 1000, Num 3], [Num 2000, Num 3]]
      [Num 120, Num 220, Num 140, Num 240, Num 180, Num 280]
      (test_size CONFIG) (random_state CONFIG) = (g, Inr six_houses_split)"
    unfolding train_test_split_def i'
    by (simp add: take_rows_def six_houses_split_def)
  show ?thesis
    unfolding prepare_model_data_def X y by (simp add: t)
qed




lemma draw_seeded: "draw_permutation seeded ambient (Some seed) g n = (seeded seed n, g)"
  by (simp add: draw_permutation_def)

lemma split_indices_seeded:
  "split_indices seeded ambient ts (Some seed) g n =
     (g, snd (split_indices seeded ambient ts (Some seed) g0 n))"
  by (simp add: split_indices_def draw_seeded split: sum.splits prod.splits)

lemma train_test_split_seeded:
  "train_test_split seeded ambient g X y ts (Some seed) =
     (g, snd (train_test_split seeded ambient g0 X y ts (Some seed)))"
  unfolding train_test_split_def
  by (subst (1 2) split_indices_seeded [where ?g0.0 = g0]) (simp split: sum.splits prod.splits)

text \<open>
  C7.  With a seed configured, the split is the same in every run: the arrays returned
  and the index lists do not depend on the state of the process-wide generator, which
  the call leaves as it found it; the index lists depend on the data only through the
  number of rows.
\<close>

theorem prepare_model_data_deterministic:
  assumes "random_state cfg = Some seed"
  shows "snd (prepare_model_data seeded ambient cfg g1 df) = snd (prepare_model_data seeded ambient cfg g2 df)
    \<and> fst (prepare_model_data seeded ambient cfg g1 df) = g1
    \<and> snd (split_indices seeded ambient (test_size cfg) (random_state cfg) g1 n)
      = snd (split_indices seeded ambient (test_size cfg) (random_state cfg) g2 n)"
proof -
  have a: "prepare_model_data seeded ambient cfg g df =
      (g, snd (prepare_model_data seeded ambient cfg g2 df))" for g
    unfolding prepare_model_data_def assms
    by (subst (1 2) train_test_split_seeded [where ?g0.0 = g2]) (simp split: sum.splits)
  have b: "snd (split_indices seeded ambient (test_size cfg) (random_state cfg) g1 n)
      = snd (split_indices seeded ambient (test_size cfg) (random_state cfg) g2 n)"
    unfolding assms by (subst split_indices_seeded [where ?g0.0 = g2]) simp
  show ?thesis using a [of g1] b by simp
qed

theorem prepare_model_data_deterministic_witness:
  "snd (prepare_model_data reversed_permutation rotating_generator CONFIG (0::nat) six_houses)
     = snd (prepare_model_data reversed_permutation rotating_generator CONFIG 1 six_houses)
   \<and> fst (prepare_model_data reversed_permutation rotating_generator CONFIG (0::nat) six_houses) = 0
   \<and> snd (split_indices reversed_permutation rotating_generator (test_size CONFIG)
            (random_state CONFIG) (0::nat) 6)
     = snd (split_indices reversed_permutation rotating_generator (test_size CONFIG)
            (random_state CONFIG) 1 6)
   \<and> snd (split_indices reversed_permutation rotating_generator (test_size CONFIG) None (0::nat) 6)
     \<noteq> snd (split_indices reversed_permutation rotating_generator (test_size CONFIG) None 1 6)"
proof -
  have s: "random_state CONFIG = Some 42" by (simp add: CONFIG_def)
  have "snd (split_indices reversed_permutation rotating_generator (test_size CONFIG) None (0::nat) 6)
     \<noteq> snd (split_indices reversed_permutation rotating_generator (test_size CONFIG) None 1 6)"
    unfolding split_indices_def split_sizes_six
    by (simp add: draw_permutation_def rotating_generator_def upt_6)
  with prepare_model_data_deterministic [OF s, of reversed_permutation rotating_generator 0 six_houses 1 6]
  show ?thesis by blast
qed

section \<open>Preprocessing\<close>

lemma to_numeric_idem: "to_numeric parse (to_numeric parse c) = to_numeric parse c"
  by (simp add: to_numeric_def split: cell.splits option.splits)

lemma coerce_row_notin: "c \<notin> set cols \<Longrightarrow> coerce_row parse cols r c = r c"
  by (induction cols arbitrary: r) auto

lemma coerce_row_in: "c \<in> set cols \<Longrightarrow> coerce_row parse cols r c = to_numeric parse (r c)"
proof (induction cols arbitrary: r)
  case Nil
  then show ?case by simp
next
  case (Cons a cols)
  show ?case
  proof (cases "c \<in> set cols")
    case True
    have "coerce_row parse (a # cols) r c = coerce_row parse cols (r(a := to_numeric parse (r a))) c"
      by simp
    also have "\<dots> = to_numeric parse ((r(a := to_numeric parse (r a))) c)"
      using True by (rule Cons.IH)
    also have "\<dots> = to_numeric parse (r c)"
      by (simp add: to_numeric_idem)
    finally show ?thesis .
  next
    case False
    with Cons.prems have "c = a" by simp
    with False show ?thesis by (simp add: coerce_row_notin)
  qed
qed

lemma coerce_loop_result:
  assumes "p < length h"
  shows "\<exists>h' r. coerce_loop parse cols h p = (h', r) \<and> length h' = length h
           \<and> (\<forall>q. q \<noteq> p \<longrightarrow> h' ! q = h ! q)
           \<and> columns (h' ! p) = columns (h ! p)
           \<and> (case r of
                 Inl e \<Rightarrow> e = KeyError \<and> \<not> set cols \<subseteq> set (columns (h ! p))
               | Inr u \<Rightarrow> set cols \<subseteq> set (columns (h ! p))
                   \<and> h' ! p = (h ! p)\<lparr>rows := map (\<lambda>(i, r). (i, coerce_row parse cols r)) (rows (h ! p))\<rparr>)"
  using assms
proof (induction cols arbitrary: h)
  case Nil
  then show ?case by simp
next
  case (Cons col cols)
  show ?case
  proof (cases "col \<in> set (columns (h ! p))")
    case False
    then show ?thesis by simp
  next
    case True
    let ?h1 = "h[p := set_column (h ! p) col (to_numeric parse)]"
    have p1: "p < length ?h1" using Cons.prems by simp
    have at: "?h1 ! p = set_column (h ! p) col (to_numeric parse)" using Cons.prems by simp
    from Cons.IH [OF p1] obtain h' r where
      run: "coerce_loop parse cols ?h1 p = (h', r)" and len: "length h' = length ?h1"
      and other: "\<forall>q. q \<noteq> p \<longrightarrow> h' ! q = ?h1 ! q"
      and cols: "columns (h' ! p) = columns (?h1 ! p)"
      and res: "case r of
                 Inl e \<Rightarrow> e = KeyError \<and> \<not> set cols \<subseteq> set (columns (?h1 ! p))
               | Inr u \<Rightarrow> set cols \<subseteq> set (columns (?h1 ! p))
                   \<and> h' ! p = (?h1 ! p)\<lparr>rows := map (\<lambda>(i, r). (i, coerce_row parse cols r)) (rows (?h1 ! p))\<rparr>"
      by blast
    have c1: "columns (?h1 ! p) = columns (h ! p)" using Cons.prems by (simp add: set_column_def)
    have r1: "map (\<lambda>(i, r). (i, coerce_row parse cols r)) (rows (?h1 ! p))
        = map (\<lambda>(i, r). (i, coerce_row parse (col # cols) r)) (rows (h ! p))"
      using Cons.prems by (simp add: set_column_def case_prod_unfold)
    have "coerce_loop parse (col # cols) h p = (h', r)" using True run by simp
    moreover have "length h' = length h" using len by simp
    moreover have "\<forall>q. q \<noteq> p \<longrightarrow> h' ! q = h ! q" using other by simp
    moreover have "columns (h' ! p) = columns (h ! p)" using cols c1 by simp
    moreover have "case r of
                 Inl e \<Rightarrow> e = KeyError \<and> \<not> set (col # cols) \<subseteq> set (columns (h ! p))
               | Inr u \<Rightarrow> set (col # cols) \<subseteq> set (columns (h ! p))
                   \<and> h' ! p = (h ! p)\<lparr>rows := map (\<lambda>(i, r). (i, coerce_row parse (col # cols) r)) (rows (h ! p))\<rparr>"
      using res True unfolding c1 r1
      using Cons.prems by (cases r) (simp_all add: set_column_def)
    ultimately show ?thesis by blast
  qed
qed

lemma non_missing_coerced:
  "list_ex (\<lambda>c. isna (coerce_row parse cols r c)) cols \<longleftrightarrow> \<not> non_missing parse cols r"
  by (auto simp: non_missing_def list_ex_iff list_all_iff coerce_row_in)

lemma dropna_coerced:
  "dropna (df\<lparr>rows := map (\<lambda>(i, r). (i, coerce_row parse cols r)) (rows df)\<rparr>) cols
     = cleaned parse cols df"
  by (simp add: dropna_def cleaned_def filter_map comp_def case_prod_unfold non_missing_coerced)

lemma no_na_coerced:
  assumes "\<not> any_isna (df\<lparr>rows := map (\<lambda>(i, r). (i, coerce_row parse cols r)) (rows df)\<rparr>) cols"
  shows "df\<lparr>rows := map (\<lambda>(i, r). (i, coerce_row parse cols r)) (rows df)\<rparr> = cleaned parse cols df"
proof -
  have "\<forall>x \<in> set (rows df). non_missing parse cols (snd x)"
    using assms
    by (auto simp: any_isna_def list_ex_iff non_missing_def list_all_iff coerce_row_in case_prod_unfold)
  then have "filter (\<lambda>(i, r). non_missing parse cols r) (rows df) = rows df"
    by (auto simp: case_prod_unfold)
  then show ?thesis by (simp add: cleaned_def)
qed

lemma drop_outliers_spec_unfold:
  "drop_outliers_spec k col df =
     df\<lparr>rows := filter (\<lambda>x. \<not> (case x of (i, r) \<Rightarrow>
                 cell_lt (r col) (lower_of (series_mean (series df col)) k (series_std (series df col)))
               \<or> cell_gt (r col) (upper_of (series_mean (series df col)) k (series_std (series df col)))))
            (rows df)\<rparr>"
  by (simp add: drop_outliers_spec_def Let_def strictly_outside_def case_prod_unfold)

lemma columns_drop_outliers_spec [simp]: "columns (drop_outliers_spec k col df) = columns df"
  by (simp add: drop_outliers_spec_def Let_def)

lemma columns_sequential_outlier_spec [simp]: "columns (sequential_outlier_spec k cols df) = columns df"
  by (induction cols arbitrary: df) simp_all

lemma subseq_sequential_outlier_spec: "subseq (rows (sequential_outlier_spec k cols df)) (rows df)"
proof (induction cols arbitrary: df)
  case Nil
  then show ?case by simp
next
  case (Cons col cols)
  have "subseq (rows (drop_outliers_spec k col df)) (rows df)"
    by (simp add: drop_outliers_spec_def Let_def)
  with Cons [of "drop_outliers_spec k col df"] show ?case
    by (auto intro: subseq_order.trans)
qed

lemma take_prefix:
  assumes "take (length (h @ [x])) h' = h @ [x]"
  shows "take (length h) h' = h"
proof -
  have "take (length h) h' = take (length h) (take (length (h @ [x])) h')"
    by (simp add: min_def)
  also have "\<dots> = take (length h) (h @ [x])" by (simp only: assms)
  also have "\<dots> = h" by simp
  finally show ?thesis .
qed

lemma outlier_loop_result:
  assumes "p < length h" "set cols \<subseteq> set (columns (h ! p))"
  shows "\<exists>h' p'. outlier_loop k cols h p = (h', Inr p') \<and> p' < length h' \<and> take (length h) h' = h
           \<and> (p' = p \<or> length h \<le> p')
           \<and> h' ! p' = sequential_outlier_spec k cols (h ! p)"
  using assms
proof (induction cols arbitrary: h p)
  case Nil
  then show ?case by simp
next
  case (Cons col cols)
  let ?df = "h ! p"
  let ?out = "\<lambda>x. case x of (i, r) \<Rightarrow>
                 cell_lt (r col) (lower_of (series_mean (series ?df col)) k (series_std (series ?df col)))
               \<or> cell_gt (r col) (upper_of (series_mean (series ?df col)) k (series_std (series ?df col)))"
  have col: "col \<in> set (columns ?df)" and cols: "set cols \<subseteq> set (columns ?df)"
    using Cons.prems by simp_all
  show ?case
  proof (cases "list_ex ?out (rows ?df)")
    case True
    let ?df' = "?df\<lparr>rows := filter (\<lambda>x. \<not> ?out x) (rows ?df)\<rparr>"
    let ?h1 = "h @ [?df']"
    have step: "outlier_loop k (col # cols) h p = outlier_loop k cols ?h1 (length h)"
      using True col by (simp add: Let_def alloc_def)
    have spec: "drop_outliers_spec k col ?df = ?df'"
      by (simp add: drop_outliers_spec_unfold)
    have "length h < length ?h1" "set cols \<subseteq> set (columns (?h1 ! length h))"
      using cols by simp_all
    from Cons.IH [OF this] obtain h' p' where
      "outlier_loop k cols ?h1 (length h) = (h', Inr p')" "p' < length h'"
      "take (length ?h1) h' = ?h1" "p' = length h \<or> length ?h1 \<le> p'"
      "h' ! p' = sequential_outlier_spec k cols (?h1 ! length h)"
      by blast
    moreover from this(3) have "take (length h) h' = h"
      by (rule take_prefix)
    ultimately show ?thesis
      unfolding step using spec by auto
  next
    case False
    have step: "outlier_loop k (col # cols) h p = outlier_loop k cols h p"
      using False col by (simp add: Let_def)
    have "filter (\<lambda>x. \<not> ?out x) (rows ?df) = rows ?df"
      using False by (auto simp: list_ex_iff)
    then have spec: "drop_outliers_spec k col ?df = ?df"
      by (simp add: drop_outliers_spec_unfold)
    from Cons.IH [OF Cons.prems(1) cols] show ?thesis
      unfolding step by (simp add: spec)
  qed
qed

lemma take_unchanged:
  assumes "length h2 = length h1" "\<forall>q. q \<noteq> p \<longrightarrow> h2 ! q = h1 ! q" "n \<le> p"
  shows "take n h2 = take n h1"
  using assms by (intro nth_equalityI) auto

lemma take_take_prefix:
  assumes "take (length h3) h' = h3" "take n h3 = h" "n \<le> length h3"
  shows "take n h' = h"
proof -
  have "take n h' = take n (take (length h3) h')" using assms(3) by (simp add: min_def)
  then show ?thesis using assms(1,2) by simp
qed

lemma columns_cleaned [simp]: "columns (cleaned parse cols df) = columns df"
  by (simp add: cleaned_def)

lemma preprocess_data_result:
  assumes "df < length h"
  shows "\<exists>h' r. preprocess_data parse cfg h df = (h', r) \<and> take (length h) h' = h
           \<and> (case r of
                 Inl e \<Rightarrow> e = KeyError \<and> \<not> set (required_cols cfg) \<subseteq> set (columns (h ! df))
               | Inr p \<Rightarrow> set (required_cols cfg) \<subseteq> set (columns (h ! df))
                   \<and> length h \<le> p \<and> p < length h'
                   \<and> h' ! p = sequential_outlier_spec (outlier_threshold cfg) (required_cols cfg)
                                (cleaned parse (required_cols cfg) (h ! df)))"
proof -
  let ?cols = "required_cols cfg"
  let ?h1 = "h @ [h ! df]"
  let ?p0 = "length h"
  have a: "alloc h (h ! df) = (?h1, ?p0)" by (simp add: alloc_def)
  have p0: "?p0 < length ?h1" by simp
  have at0: "?h1 ! ?p0 = h ! df" by simp
  from coerce_loop_result [OF p0, of parse ?cols] obtain h2 r where
    run: "coerce_loop parse ?cols ?h1 ?p0 = (h2, r)" and len: "length h2 = length ?h1"
    and other: "\<forall>q. q \<noteq> ?p0 \<longrightarrow> h2 ! q = ?h1 ! q"
    and res: "case r of
                 Inl e \<Rightarrow> e = KeyError \<and> \<not> set ?cols \<subseteq> set (columns (h ! df))
               | Inr u \<Rightarrow> set ?cols \<subseteq> set (columns (h ! df))
                   \<and> h2 ! ?p0 = (h ! df)\<lparr>rows := map (\<lambda>(i, r). (i, coerce_row parse ?cols r)) (rows (h ! df))\<rparr>"
    unfolding at0 by blast
  have pre2: "take (length h) h2 = h"
    using take_unchanged [OF len other order_refl] by simp
  show ?thesis
  proof (cases r)
    case (Inl e)
    then have "preprocess_data parse cfg h df = (h2, Inl e)"
      by (simp add: preprocess_data_def a run)
    with pre2 res Inl show ?thesis by simp
  next
    case (Inr u)
    let ?co = "(h ! df)\<lparr>rows := map (\<lambda>(i, r). (i, coerce_row parse ?cols r)) (rows (h ! df))\<rparr>"
    from res Inr have sub: "set ?cols \<subseteq> set (columns (h ! df))" and at2: "h2 ! ?p0 = ?co"
      by simp_all
    obtain h3 p1 where
      sel: "(if any_isna (h2 ! ?p0) ?cols then alloc h2 (dropna (h2 ! ?p0) ?cols) else (h2, ?p0)) = (h3, p1)"
      by (cases "if any_isna (h2 ! ?p0) ?cols then alloc h2 (dropna (h2 ! ?p0) ?cols) else (h2, ?p0)")
    have h3: "p1 < length h3 \<and> take (length h) h3 = h \<and> length h \<le> p1 \<and> length h \<le> length h3
        \<and> h3 ! p1 = cleaned parse ?cols (h ! df)"
    proof (cases "any_isna (h2 ! ?p0) ?cols")
      case True
      with sel have "h3 = h2 @ [dropna ?co ?cols]" "p1 = length h2"
        by (simp_all add: alloc_def at2)
      moreover have "(h2 @ [dropna ?co ?cols]) ! length h2 = dropna ?co ?cols"
        by (rule nth_append_length)
      ultimately show ?thesis using pre2 len by (simp add: dropna_coerced del: nth_append_length)
    next
      case False
      with sel have "h3 = h2" "p1 = ?p0" by simp_all
      then show ?thesis using pre2 len at2 no_na_coerced [where df = "h ! df" and parse = parse and cols = ?cols] False
        by simp
    qed
    then have c3: "set ?cols \<subseteq> set (columns (h3 ! p1))" using sub by simp
    from h3 have p1: "p1 < length h3" by simp
    from outlier_loop_result [OF p1 c3, of "outlier_threshold cfg"] obtain h' p' where
      out: "outlier_loop (outlier_threshold cfg) ?cols h3 p1 = (h', Inr p')" and p': "p' < length h'"
      and pre: "take (length h3) h' = h3" and where_p: "p' = p1 \<or> length h3 \<le> p'"
      and val: "h' ! p' = sequential_outlier_spec (outlier_threshold cfg) ?cols (h3 ! p1)"
      by blast
    have run': "preprocess_data parse cfg h df = (h', Inr p')"
      using Inr sel out by (simp add: preprocess_data_def a run)
    have "take (length h) h' = h"
      using h3 by (intro take_take_prefix [OF pre]) simp_all
    moreover have "length h \<le> p'" using where_p h3 by auto
    ultimately show ?thesis using run' p' val h3 sub by simp
  qed
qed


text \<open>
  C5.  \<^verbatim>\<open>preprocess_data\<close> leaves every frame that existed before the call as it was, the
  input among them, whether it returns or raises.  The frame it returns is another
  object, has the columns of the input, and its rows are, in their order, among the
  coerced input rows that miss no required value: no row is added.
\<close>

theorem preprocess_data_pure_subset:
  assumes "df < length h"
  shows "\<exists>h' r. preprocess_data parse cfg h df = (h', r) \<and> take (length h) h' = h \<and> h' ! df = h ! df
           \<and> (case r of
                 Inl e \<Rightarrow> e = KeyError
               | Inr p \<Rightarrow> p \<noteq> df \<and> p < length h' \<and> columns (h' ! p) = columns (h ! df)
                   \<and> subseq (rows (h' ! p))
                        (map (\<lambda>(i, r). (i, coerce_row parse (required_cols cfg) r))
                           (filter (\<lambda>(i, r). non_missing parse (required_cols cfg) r) (rows (h ! df)))))"
proof -
  from preprocess_data_result [OF assms, of parse cfg] obtain h' r where
    run: "preprocess_data parse cfg h df = (h', r)" and pre: "take (length h) h' = h"
    and res: "case r of
       Inl e \<Rightarrow> e = KeyError \<and> \<not> set (required_cols cfg) \<subseteq> set (columns (h ! df))
     | Inr p \<Rightarrow> set (required_cols cfg) \<subseteq> set (columns (h ! df))
         \<and> length h \<le> p \<and> p < length h'
         \<and> h' ! p = sequential_outlier_spec (outlier_threshold cfg) (required_cols cfg)
                      (cleaned parse (required_cols cfg) (h ! df))"
    by blast
  have same: "h' ! df = h ! df"
    using assms pre by (metis nth_take)
  have sub: "subseq (rows (sequential_outlier_spec (outlier_threshold cfg) (required_cols cfg)
                      (cleaned parse (required_cols cfg) (h ! df))))
      (map (\<lambda>(i, r). (i, coerce_row parse (required_cols cfg) r))
         (filter (\<lambda>(i, r). non_missing parse (required_cols cfg) r) (rows (h ! df))))"
    using subseq_sequential_outlier_spec [of "outlier_threshold cfg" "required_cols cfg"
        "cleaned parse (required_cols cfg) (h ! df)"]
    by (simp add: cleaned_def)
  show ?thesis
  proof (cases r)
    case (Inl e)
    with run pre same res show ?thesis by simp
  next
    case (Inr p)
    with res assms have "p \<noteq> df" by auto
    with run pre same res Inr sub show ?thesis by simp
  qed
qed











theorem preprocess_data_pure_subset_witness:
  "\<exists>h' r. preprocess_data survey_parse survey_config [survey] 0 = (h', r)
     \<and> take (length [survey]) h' = [survey] \<and> h' ! 0 = [survey] ! 0
     \<and> (case r of
           Inl e \<Rightarrow> e = KeyError
         | Inr p \<Rightarrow> p \<noteq> 0 \<and> p < length h' \<and> columns (h' ! p) = columns ([survey] ! 0)
             \<and> subseq (rows (h' ! p))
                  (map (\<lambda>(i, r). (i, coerce_row survey_parse (required_cols survey_config) r))
                     (filter (\<lambda>(i, r). non_missing survey_parse (required_cols survey_config) r)
                        (rows ([survey] ! 0)))))"
proof -
  have a: "0 < length [survey]" by simp
  show ?thesis by (rule preprocess_data_pure_subset [OF a])
qed

section \<open>Evaluation\<close>

lemma sum_squares_nonneg: "0 \<le> sum_list (map2 (\<lambda>t p. (t - p)\<^sup>2) ys (ps::real list))"
  by (rule sum_list_nonneg) (auto simp: in_set_zip)

lemma sum_squares_mean_nonneg: "0 \<le> sum_list (map (\<lambda>t. (t - (a::real))\<^sup>2) ys)"
  by (rule sum_list_nonneg) auto

lemma r2_score_le_1:
  assumes "r2_score y_true y_pred = Inr (Some r)"
  shows "r \<le> 1"
proof -
  let ?num = "sum_list (map2 (\<lambda>t p. (t - p)\<^sup>2) y_true y_pred)"
  let ?den = "sum_list (map (\<lambda>t. (t - sum_list y_true / real (length y_true))\<^sup>2) y_true)"
  have "0 \<le> ?num / ?den"
    using sum_squares_nonneg [of y_true y_pred] sum_squares_mean_nonneg [of _ y_true]
    by (intro divide_nonneg_nonneg)
  then show ?thesis
    using assms by (auto simp: r2_score_def Let_def split: if_splits)
qed

lemma r2_score_defined:
  assumes "r2_score y_true y_pred = Inr r" "2 \<le> length y_true"
  shows "r \<noteq> None"
  using assms by (auto simp: r2_score_def Let_def split: if_splits)

lemma mean_squared_error_nonneg:
  assumes "mean_squared_error y_true y_pred = Inr e"
  shows "0 \<le> e"
  using assms sum_squares_nonneg [of y_true y_pred]
  by (auto simp: mean_squared_error_def split: if_splits)

lemma check_vector_length: "check_vector y = Inr v \<Longrightarrow> length v = length y"
  by (auto simp: check_vector_def split: if_splits)

lemma then_do_Inr: "then_do r f = Inr v \<longleftrightarrow> (\<exists>x. r = Inr x \<and> f x = Inr v)"
  by (cases r) (simp_all add: then_do_def)

lemma evaluate_model_Inr:
  assumes "evaluate_model data m s = Inr res"
  shows "\<exists>Xtr Xte ytr yte mse_tr mse_te.
           transform s (X_trained data) = Inr Xtr \<and> transform s (X_test data) = Inr Xte
         \<and> predict m Xtr = Inr (train_predictions res) \<and> predict m Xte = Inr (test_predictions res)
         \<and> check_vector (y_trained data) = Inr ytr \<and> check_vector (y_test data) = Inr yte
         \<and> r2_score ytr (train_predictions res) = Inr (train_r2 res)
         \<and> r2_score yte (test_predictions res) = Inr (test_r2 res)
         \<and> mean_squared_error ytr (train_predictions res) = Inr mse_tr
         \<and> mean_squared_error yte (test_predictions res) = Inr mse_te
         \<and> train_rmse res = sqrt mse_tr \<and> test_rmse res = sqrt mse_te
         \<and> model res = m \<and> scaler res = s"
  using assms unfolding evaluate_model_def then_do_Inr
  by (elim exE conjE) auto

text \<open>
  C8.  Whenever \<^verbatim>\<open>evaluate_model\<close> returns, both root mean squared errors are
  non-negative and each coefficient of determination that is a number is at most one;
  on a split with at least two rows it is a number.
\<close>

theorem evaluate_model_metric_sanity:
  assumes "evaluate_model data m s = Inr res"
  shows "0 \<le> train_rmse res \<and> 0 \<le> test_rmse res
       \<and> (\<forall>r. train_r2 res = Some r \<longrightarrow> r \<le> 1) \<and> (\<forall>r. test_r2 res = Some r \<longrightarrow> r \<le> 1)
       \<and> (2 \<le> length (y_trained data) \<longrightarrow> train_r2 res \<noteq> None)
       \<and> (2 \<le> length (y_test data) \<longrightarrow> test_r2 res \<noteq> None)"
proof -
  from evaluate_model_Inr [OF assms] obtain ytr yte mse_tr mse_te where
    v: "check_vector (y_trained data) = Inr ytr" "check_vector (y_test data) = Inr yte"
    and r: "r2_score ytr (train_predictions res) = Inr (train_r2 res)"
      "r2_score yte (test_predictions res) = Inr (test_r2 res)"
    and e: "mean_squared_error ytr (train_predictions res) = Inr mse_tr"
      "mean_squared_error yte (test_predictions res) = Inr mse_te"
    and q: "train_rmse res = sqrt mse_tr" "test_rmse res = sqrt mse_te"
    by blast
  have "0 \<le> train_rmse res" "0 \<le> test_rmse res"
    using e q by (simp_all add: mean_squared_error_nonneg)
  moreover have "\<forall>x. train_r2 res = Some x \<longrightarrow> x \<le> 1" "\<forall>x. test_r2 res = Some x \<longrightarrow> x \<le> 1"
    using r by (auto dest: r2_score_le_1)
  moreover have "2 \<le> length (y_trained data) \<longrightarrow> train_r2 res \<noteq> None"
    using r(1) v(1) by (auto dest!: r2_score_defined check_vector_length)
  moreover have "2 \<le> length (y_test data) \<longrightarrow> test_r2 res \<noteq> None"
    using r(2) v(2) by (auto dest!: r2_score_defined check_vector_length)
  ultimately show ?thesis by blast
qed

lemma evaluate_six_houses:
  "evaluate_model six_houses_split example_model example_scaler = Inr six_houses_result"
proof -
  have a: "transform example_scaler (X_trained six_houses_split) = Inr [[1, 1], [-1, 1], [1, -1], [-1, -1]]"
    by (simp add: transform_def check_array_def as_float_def check_n_features_def scale_row_def
        example_scaler_def six_houses_split_def)
  have b: "transform example_scaler (X_test six_houses_split) = Inr [[2, 0], [0, 0]]"
    by (simp add: transform_def check_array_def as_float_def check_n_features_def scale_row_def
        example_scaler_def six_houses_split_def)
  have c: "predict example_model [[1, 1], [-1, 1], [1, -1], [-1, -1]] = Inr [240, 140, 220, 120]"
    by (simp add: predict_def check_n_features_def dot_def example_model_def)
  have d: "predict example_model [[2, 0], [0, 0]] = Inr [280, 180]"
    by (simp add: predict_def check_n_features_def dot_def example_model_def)
  have e: "check_vector (y_trained six_houses_split) = Inr [240, 140, 220, 120]"
    "check_vector (y_test six_houses_split) = Inr [280, 180]"
    by (simp_all add: check_vector_def as_float_def six_houses_split_def)
  have f: "r2_score [240, 140, 220, 120] [240, 140, 220, 120] = Inr (Some 1)"
    "r2_score [280, 180] [280, 180] = Inr (Some 1)"
    by (simp_all add: r2_score_def)
  have g: "mean_squared_error [240, 140, 220, 120] [240, 140, 220, 120] = Inr 0"
    "mean_squared_error [280, 180] [280, 180] = Inr 0"
    by (simp_all add: mean_squared_error_def)
  show ?thesis
    unfolding evaluate_model_def
    by (simp add: then_do_def a b c d e f g six_houses_result_def)
qed

theorem evaluate_model_metric_sanity_witness:
  "0 \<le> train_rmse six_houses_result \<and> 0 \<le> test_rmse six_houses_result
   \<and> train_r2 six_houses_result = Some 1 \<and> test_r2 six_houses_result = Some 1
   \<and> 2 \<le> length (y_trained six_houses_split) \<and> 2 \<le> length (y_test six_houses_split)"
  using evaluate_model_metric_sanity [OF evaluate_six_houses]
  by (simp add: six_houses_result_def six_houses_split_def)

section \<open>Prediction on a frame\<close>

lemma take_rows_subset: "take_rows xs ind = Inr ys \<Longrightarrow> set ys \<subseteq> set xs"
  by (auto simp: take_rows_def list_all_iff split: if_splits)

lemma to_numpy_cols_width:
  "to_numpy_cols df cols = Inr X \<Longrightarrow> row \<in> set X \<Longrightarrow> length row = length cols"
  by (auto simp: to_numpy_cols_def split: if_splits)

lemma prepare_model_data_width:
  assumes "snd (prepare_model_data seeded ambient cfg g df) = Inr data" "row \<in> set (X_trained data)"
  shows "length row = length (feature_cols cfg)"
proof -
  obtain X where X: "to_numpy_cols df (feature_cols cfg) = Inr X"
    using assms(1) by (cases "to_numpy_cols df (feature_cols cfg)") (simp_all add: prepare_model_data_def)
  have "set (X_trained data) \<subseteq> set X"
    using assms(1) X unfolding prepare_model_data_def train_test_split_def
    by (auto split: sum.splits if_splits prod.splits dest!: take_rows_subset)
  with assms(2) to_numpy_cols_width [OF X] show ?thesis by blast
qed

lemma check_array_Inr:
  assumes "check_array X = Inr Xf"
  shows "X \<noteq> []" "Xf = map (map (\<lambda>c. the (as_float c))) X"
  using assms by (auto simp: check_array_def split: if_splits)

lemma scaler_fit_width:
  assumes "scaler_fit X = Inr s"
  shows "X \<noteq> [] \<and> length (mean s) = length (hd X)"
proof -
  obtain Xf where c: "check_array X = Inr Xf"
    using assms by (cases "check_array X") (simp_all add: scaler_fit_def)
  note f = check_array_Inr [OF c]
  have "length (hd Xf) = length (hd X)" using f by (simp add: hd_map)
  moreover have "length (mean s) = length (hd Xf)"
    using assms c by (auto simp: scaler_fit_def Let_def split: if_splits)
  ultimately show ?thesis using f by simp
qed

lemma train_model_width:
  assumes "train_model lstsq data = Inr (m, s)"
  shows "X_trained data \<noteq> [] \<and> length (mean s) = length (hd (X_trained data))"
proof -
  have "scaler_fit (X_trained data) = Inr s"
    using assms by (auto simp: train_model_def split: sum.splits)
  then show ?thesis by (rule scaler_fit_width)
qed

lemma transform_wrong_width:
  assumes "\<forall>row \<in> set X. length row \<noteq> length (mean s)"
  shows "transform s X = Inl ValueError"
proof (cases "check_array X")
  case (Inl e)
  then have "e = ValueError" by (auto simp: check_array_def split: if_splits)
  with Inl show ?thesis by (simp add: transform_def)
next
  case (Inr Xf)
  note f = check_array_Inr [OF Inr]
  from f(1) obtain row rest where "X = row # rest" by (cases X) auto
  with f(2) assms have "\<not> check_n_features (length (mean s)) Xf"
    by (simp add: check_n_features_def)
  with Inr show ?thesis by (simp add: transform_def)
qed

lemma make_predictions_wrong_width:
  assumes "length (mean s) \<noteq> length (required_cols cfg)"
  shows "is_ModelOperationError (make_predictions cfg df m s)"
proof (cases "to_numpy_cols df (required_cols cfg)")
  case (Inl e)
  then show ?thesis by (simp add: make_predictions_def)
next
  case (Inr X)
  have "\<forall>row \<in> set X. length row \<noteq> length (mean s)"
    using to_numpy_cols_width [OF Inr] assms by auto
  then have "transform s X = Inl ValueError" by (rule transform_wrong_width)
  with Inr show ?thesis by (simp add: make_predictions_def)
qed

text \<open>
  C10.  A scaler that \<^verbatim>\<open>train_model\<close> fitted on data prepared under the configuration
  knows two features; \<^verbatim>\<open>make_predictions\<close> hands it the three required columns, so on
  every frame the call ends in \<^verbatim>\<open>ModelOperationError\<close>.
\<close>

theorem make_predictions_always_raises:
  assumes "snd (prepare_model_data seeded ambient CONFIG g df0) = Inr data"
    and "train_model lstsq data = Inr (m, s)"
  shows "is_ModelOperationError (make_predictions CONFIG df m s)"
proof -
  from train_model_width [OF assms(2)] have ne: "X_trained data \<noteq> []"
    and w: "length (mean s) = length (hd (X_trained data))" by simp_all
  from ne have "hd (X_trained data) \<in> set (X_trained data)" by simp
  from prepare_model_data_width [OF assms(1) this] w
  have "length (mean s) = length (feature_cols CONFIG)" by simp
  then have "length (mean s) \<noteq> length (required_cols CONFIG)" by (simp add: CONFIG_def)
  then show ?thesis by (rule make_predictions_wrong_width)
qed

lemma train_six_houses:
  "train_model fixed_solver six_houses_split = Inr (example_model, example_scaler)"
proof -
  have a: "scaler_fit (X_trained six_houses_split) = Inr example_scaler"
    by (simp add: scaler_fit_def check_array_def as_float_def check_n_features_def
        six_houses_split_def example_scaler_def column_mean_def column_scale_def upt_rec sqrt_250000)
  have b: "transform example_scaler (X_trained six_houses_split) = Inr [[1, 1], [-1, 1], [1, -1], [-1, -1]]"
    by (simp add: transform_def check_array_def as_float_def check_n_features_def scale_row_def
        example_scaler_def six_houses_split_def)
  have c: "check_vector (y_trained six_houses_split) = Inr [240, 140, 220, 120]"
    by (simp add: check_vector_def as_float_def six_houses_split_def)
  show ?thesis
    by (simp add: train_model_def a b c fixed_solver_def)
qed

theorem make_predictions_always_raises_witness:
  "is_ModelOperationError (make_predictions CONFIG six_houses example_model example_scaler)
   \<and> make_predictions CONFIG six_houses example_model example_scaler
       = Inl (ModelOperationError (FailedToMakePrediction ValueError))"
proof -
  have a: "snd (prepare_model_data reversed_permutation rotating_generator CONFIG (0::nat) six_houses)
      = Inr six_houses_split"
    by (simp add: prepare_six_houses)
  have "make_predictions CONFIG six_houses example_model example_scaler
       = Inl (ModelOperationError (FailedToMakePrediction ValueError))"
    by (simp add: make_predictions_def to_numpy_cols_def CONFIG_def six_houses_def transform_def
        check_array_def as_float_def house_def check_n_features_def example_scaler_def)
  with make_predictions_always_raises [OF a train_six_houses, of six_houses] show ?thesis
    by blast
qed

section \<open>Persistence\<close>

















end
